theory Spec2Isabelle
  imports Complex_Main
begin

section \<open>Values, errors and log records\<close>

text \<open>
  A double as the decoder sees it: either not-a-number or a finite value. Rounding and
  infinities play no part in the decoder (it only compares with the missing sentinel,
  tests for NaN and divides the pressure by 100), so finite values are reals.
\<close>

datatype float64 = NaN | Fin real

text \<open>IEEE equality, as numpy's \<^verbatim>\<open>==\<close> on doubles: NaN equals nothing.\<close>

fun float_eq :: "float64 \<Rightarrow> float64 \<Rightarrow> bool" where
  "float_eq (Fin a) (Fin b) = (a = b)"
| "float_eq _ _ = False"

fun isnan :: "float64 \<Rightarrow> bool" where
  "isnan NaN = True"
| "isnan (Fin _) = False"

fun fdiv :: "float64 \<Rightarrow> real \<Rightarrow> float64" where
  "fdiv NaN _ = NaN"
| "fdiv (Fin a) d = Fin (a / d)"

text \<open>
  The missing sentinels of ecCodes (\<^verbatim>\<open>CODES_MISSING_DOUBLE\<close>, \<^verbatim>\<open>CODES_MISSING_LONG\<close>),
  with the values the library gives them.
\<close>

definition MISSING_DOUBLE :: float64 where
  "MISSING_DOUBLE = Fin (- (10 ^ 100))"

definition MISSING_LONG :: int where
  "MISSING_LONG = 2147483647"

text \<open>
  What \<^verbatim>\<open>get_value_from_bufr_array\<close> hands back: one integer, or (on its second branch)
  the whole integer array.
\<close>

datatype pyval = PStr string | PInt int | PArr "int list"

text \<open>A key of the message: a plain name, or \<^verbatim>\<open>"#%d#name" % rank\<close>.\<close>

datatype key = Key string | Rank nat string

datatype error =
    ValueError "pyval list"
  | CodesInternalError key
  | KeyError nat
  | IndexError

datatype level = DEBUG | INFO | WARNING

datatype logarg = LVal pyval | LErr error

datatype log_record = LogRecord level string "logarg list"

text \<open>
  A computation that may raise and may write to \<^verbatim>\<open>LOGGER\<close>: its result or its error,
  and the records logged up to there, in order.
\<close>

type_synonym 'a io = "(error + 'a) \<times> log_record list"

definition io_return :: "'a \<Rightarrow> 'a io" where
  "io_return x = (Inr x, [])"

definition io_raise :: "error \<Rightarrow> 'a io" where
  "io_raise e = (Inl e, [])"

definition io_log :: "log_record \<Rightarrow> unit io" where
  "io_log r = (Inr (), [r])"

definition io_bind :: "'a io \<Rightarrow> ('a \<Rightarrow> 'b io) \<Rightarrow> 'b io" where
  "io_bind m f =
     (case m of
        (Inl e, l) \<Rightarrow> (Inl e, l)
      | (Inr x, l) \<Rightarrow> (case f x of (r, l') \<Rightarrow> (r, l @ l')))"

section \<open>The normalizer: \<^verbatim>\<open>_check_variable\<close>\<close>

text \<open>
  \<^verbatim>\<open>
  def _check_variable(var, n_ens, varname=None):
      if len(var) == n_ens:
          var[var == MISSING_DOUBLE] = np.nan
          return var
      elif len(var) == 1 and var[0] == MISSING_DOUBLE:
          return np.repeat(np.nan, n_ens)
      elif len(var) == 1 and var[0] != MISSING_DOUBLE:
          LOGGER.warning('%s: only 1 variable value for %d ensemble members, ...', varname, n_ens)
          return np.repeat(var[0], n_ens)
      else:
          raise ValueError
  \<close>
\<close>

definition check_variable :: "float64 list \<Rightarrow> nat \<Rightarrow> string \<Rightarrow> float64 list io" where
  "check_variable var n_ens varname =
     (if length var = n_ens then
        io_return (map (\<lambda>v. if float_eq v MISSING_DOUBLE then NaN else v) var)
      else if length var = 1 \<and> float_eq (var ! 0) MISSING_DOUBLE then
        io_return (replicate n_ens NaN)
      else if length var = 1 \<and> \<not> float_eq (var ! 0) MISSING_DOUBLE then
        io_bind (io_log (LogRecord WARNING
            ''%s: only 1 variable value for %d ensemble members, duplicating value to all members. This is only acceptable for lat and lon data at time 0.''
            [LVal (PStr varname), LVal (PInt (int n_ens))]))
          (\<lambda>_. io_return (replicate n_ens (var ! 0)))
      else io_raise (ValueError []))"

section \<open>\<^verbatim>\<open>get_value_from_bufr_array\<close>\<close>

text \<open>
  \<^verbatim>\<open>
  def get_value_from_bufr_array(var):
      if len(var) == 1:
          if var[0] == MISSING_LONG:
              ValueError("Array contained a single, missing value")
          return var[0]
      else:
          for i in range(len(var)):
              if var[i] != MISSING_LONG:
                  return var
                  break
          raise ValueError("Did not find a non-missing value in the array")
  \<close>
  The first branch builds a \<^verbatim>\<open>ValueError\<close> and drops it; the second returns the array
  itself at the first entry that is not missing.
\<close>

fun find_non_missing :: "int list \<Rightarrow> int list \<Rightarrow> pyval io" where
  "find_non_missing var [] =
     io_raise (ValueError [PStr ''Did not find a non-missing value in the array''])"
| "find_non_missing var (v # vs) =
     (if v \<noteq> MISSING_LONG then io_return (PArr var) else find_non_missing var vs)"

definition get_value_from_bufr_array :: "int list \<Rightarrow> pyval io" where
  "get_value_from_bufr_array var =
     (if length var = 1 then io_return (PInt (var ! 0))
      else find_non_missing var var)"

section \<open>Python and numpy helpers\<close>

text \<open>\<^verbatim>\<open>str(n)\<close> for an integer.\<close>

fun str_nat :: "nat \<Rightarrow> string" where
  "str_nat n =
     (if n < 10 then [''0123456789'' ! n]
      else str_nat (n div 10) @ [''0123456789'' ! (n mod 10)])"

declare str_nat.simps [simp del]

definition str_int :: "int \<Rightarrow> string" where
  "str_int i = (if i < 0 then CHR ''-'' # str_nat (nat (- i)) else str_nat (nat i))"

text \<open>\<^verbatim>\<open>s.strip()\<close>: white space (the ASCII part of it) removed at both ends.\<close>

definition is_space :: "char \<Rightarrow> bool" where
  "is_space c = ((of_char c :: nat) \<in> {9, 10, 11, 12, 13, 28, 29, 30, 31, 32})"

definition strip :: "string \<Rightarrow> string" where
  "strip s = rev (dropWhile is_space (rev (dropWhile is_space s)))"

text \<open>
  \<^verbatim>\<open>np.datetime64(dt.datetime(year, month, day, hour, minute))\<close>: the constructor raises
  \<^verbatim>\<open>ValueError\<close> on a field out of range (the message texts vary with the Python
  version); the result counts microseconds since 1970-01-01.
\<close>

definition is_leap :: "int \<Rightarrow> bool" where
  "is_leap y = (y mod 4 = 0 \<and> (y mod 100 \<noteq> 0 \<or> y mod 400 = 0))"

definition days_in_month :: "int \<Rightarrow> int \<Rightarrow> int" where
  "days_in_month y m =
     (if m = 2 then (if is_leap y then 29 else 28)
      else if m = 4 \<or> m = 6 \<or> m = 9 \<or> m = 11 then 30 else 31)"

definition days_from_civil :: "int \<Rightarrow> int \<Rightarrow> int \<Rightarrow> int" where
  "days_from_civil y m d =
     (let y' = (if m \<le> 2 then y - 1 else y);
          era = y' div 400;
          yoe = y' mod 400;
          doy = (153 * (if m > 2 then m - 3 else m + 9) + 2) div 5 + d - 1;
          doe = yoe * 365 + yoe div 4 - yoe div 100 + doy
      in era * 146097 + doe - 719468)"

definition HOUR_US :: int where
  "HOUR_US = 3600000000"

definition py_datetime64 :: "int \<Rightarrow> int \<Rightarrow> int \<Rightarrow> int \<Rightarrow> int \<Rightarrow> int io" where
  "py_datetime64 year month day hour minute =
     (if \<not> (1 \<le> year \<and> year \<le> 9999) then io_raise (ValueError [PStr ''year is out of range''])
      else if \<not> (1 \<le> month \<and> month \<le> 12) then io_raise (ValueError [PStr ''month must be in 1..12''])
      else if \<not> (1 \<le> day \<and> day \<le> days_in_month year month) then
        io_raise (ValueError [PStr ''day is out of range for month''])
      else if \<not> (0 \<le> hour \<and> hour \<le> 23) then io_raise (ValueError [PStr ''hour must be in 0..23''])
      else if \<not> (0 \<le> minute \<and> minute \<le> 59) then
        io_raise (ValueError [PStr ''minute must be in 0..59''])
      else io_return ((days_from_civil year month day * 24 + hour) * HOUR_US + minute * 60000000))"

text \<open>
  \<^verbatim>\<open>if x == c:\<close> where \<^verbatim>\<open>x\<close> came from \<^verbatim>\<open>get_value_from_bufr_array\<close>: on an integer
  the comparison; on an array numpy compares entrywise, and the truth value of an array
  with more than one entry raises \<^verbatim>\<open>ValueError\<close> (as it does for an empty array in
  current numpy; the function never returns one).
\<close>

fun py_if_eq :: "pyval \<Rightarrow> int \<Rightarrow> bool io" where
  "py_if_eq (PInt v) c = io_return (v = c)"
| "py_if_eq (PArr [v]) c = io_return (v = c)"
| "py_if_eq (PArr _) c =
     io_raise (ValueError [PStr ''The truth value of an array with more than one element is ambiguous. Use a.any() or a.all()''])"
| "py_if_eq (PStr _) c = io_return False"

text \<open>
  \<^verbatim>\<open>np.array(msg['timestamp'])\<close> on the list of lead times: integers give an integer
  array; once an entry is itself an array (of two or more values, beside the integer 0
  of the analysis step) the list is ragged and numpy raises \<^verbatim>\<open>ValueError\<close>.
\<close>

fun np_array_int :: "pyval list \<Rightarrow> int list io" where
  "np_array_int [] = io_return []"
| "np_array_int (PInt v # vs) = io_bind (np_array_int vs) (\<lambda>r. io_return (v # r))"
| "np_array_int (_ # vs) =
     io_raise (ValueError [PStr ''setting an array element with a sequence. The requested array has an inhomogeneous shape''])"

text \<open>\<^verbatim>\<open>d[index]\<close> on the per-member dictionaries (keys \<^verbatim>\<open>0 .. n_ens-1\<close>, kept as a list),
  \<^verbatim>\<open>a[index]\<close> on an array and \<^verbatim>\<open>s[index]\<close> on a string.\<close>

definition dict_get :: "'a list \<Rightarrow> nat \<Rightarrow> 'a io" where
  "dict_get d i = (if i < length d then io_return (d ! i) else io_raise (KeyError i))"

definition array_get :: "'a list \<Rightarrow> nat \<Rightarrow> 'a io" where
  "array_get a i = (if i < length a then io_return (a ! i) else io_raise IndexError)"

text \<open>\<^verbatim>\<open>ds.isel(time=mask)\<close> on one column, and \<^verbatim>\<open>x.shift(time=1, fill_value=fill)\<close>.\<close>

definition isel :: "bool list \<Rightarrow> 'a list \<Rightarrow> 'a list" where
  "isel keep xs = map fst (filter snd (zip xs keep))"

definition shift1 :: "'a \<Rightarrow> 'a list \<Rightarrow> 'a list" where
  "shift1 fill xs = take (length xs) (fill # xs)"

section \<open>The message reader (ecCodes)\<close>

text \<open>
  A BUFR message as the decoder reads it: \<^verbatim>\<open>codes_get\<close> on an integer or a string key,
  \<^verbatim>\<open>codes_get_size\<close>, and \<^verbatim>\<open>codes_get_array\<close> on an integer or a double key. A key the
  message does not have is \<open>None\<close>; ecCodes raises \<^verbatim>\<open>CodesInternalError\<close> there.
\<close>

record bufr =
  get_long :: "string \<Rightarrow> int option"
  get_string :: "string \<Rightarrow> string option"
  get_size :: "string \<Rightarrow> nat option"
  get_long_array :: "key \<Rightarrow> int list option"
  get_double_array :: "key \<Rightarrow> float64 list option"

definition codes_get_long :: "bufr \<Rightarrow> string \<Rightarrow> int io" where
  "codes_get_long b k =
     (case get_long b k of None \<Rightarrow> io_raise (CodesInternalError (Key k)) | Some v \<Rightarrow> io_return v)"

definition codes_get_string :: "bufr \<Rightarrow> string \<Rightarrow> string io" where
  "codes_get_string b k =
     (case get_string b k of None \<Rightarrow> io_raise (CodesInternalError (Key k)) | Some v \<Rightarrow> io_return v)"

definition codes_get_long_array :: "bufr \<Rightarrow> key \<Rightarrow> int list io" where
  "codes_get_long_array b k =
     (case get_long_array b k of None \<Rightarrow> io_raise (CodesInternalError k) | Some v \<Rightarrow> io_return v)"

definition codes_get_double_array :: "bufr \<Rightarrow> key \<Rightarrow> float64 list io" where
  "codes_get_double_array b k =
     (case get_double_array b k of None \<Rightarrow> io_raise (CodesInternalError k) | Some v \<Rightarrow> io_return v)"

section \<open>What the decoder takes from the \<^verbatim>\<open>climada\<close> package\<close>

text \<open>
  \<^verbatim>\<open>DEF_ENV_PRESSURE\<close>, \<^verbatim>\<open>BASIN_ENV_PRESSURE\<close>, \<^verbatim>\<open>CAT_NAMES\<close> and \<^verbatim>\<open>set_category\<close> are
  imported from \<^verbatim>\<open>climada.hazard.tc_tracks\<close>; they are parameters here.
  \<open>category_name\<close> is \<^verbatim>\<open>CAT_NAMES[set_category(winds, 'm/s', SAFFIR_MS_CAT)]\<close>, and
  \<open>default_id\<close> is the identifier \<^verbatim>\<open>read_one_bufr_tc\<close> makes up from the issuance time
  and a random number when it is called without \<^verbatim>\<open>id_no\<close>.
\<close>

record extern =
  DEF_ENV_PRESSURE :: real
  BASIN_ENV_PRESSURE :: "string \<Rightarrow> real"
  category_name :: "float64 list \<Rightarrow> string"
  default_id :: "int \<Rightarrow> int"

section \<open>The alternate ingester: \<^verbatim>\<open>_cxml_to_df\<close>, \<^verbatim>\<open>_fcastdf_to_ds\<close>, \<^verbatim>\<open>read_cxml\<close>\<close>

text \<open>
  One row of the table that the style sheet and \<^verbatim>\<open>pd.read_csv\<close> make of a CXML document.
  A missing entry is \<open>None\<close> (\<^verbatim>\<open>NaT\<close>, \<^verbatim>\<open>pd.NA\<close>, a missing object) or \<open>NaN\<close> in a
  column of doubles. \<^verbatim>\<open>lastClosedIsobar\<close> holds doubles when read; filling it can put a
  basin name there (see \<open>cxml_to_df\<close>). The column \<^verbatim>\<open>id\<close> is the field \<open>id_col\<close>.
\<close>

datatype cell = CFloat float64 | CStr string

record cxml_row =
  disturbance_no :: "int option"
  baseTime :: "int option"
  validTime :: "int option"
  basin :: "string option"
  cycloneNumber :: "int option"
  member :: "int option"
  cycloneName :: "string option"
  hour :: "int option"
  latitude :: float64
  longitude :: float64
  maximumWind :: float64
  minimumPressure :: float64
  maximumWindRadius :: float64
  lastClosedIsobar :: cell
  id_col :: "string option"
  origin :: "string option"

record storm_row = cxml_row +
  is_named_storm :: bool

text \<open>
  \<^verbatim>\<open>
  BASIN_ENV_PRESSURE_CXML = {
      "Southwest Pacific": BASIN_ENV_PRESSURE["SP"],
      "North Indian": BASIN_ENV_PRESSURE["NI"],
      "Northeast Pacific": BASIN_ENV_PRESSURE["EP"],
      "Northwest Pacific": BASIN_ENV_PRESSURE["WP"],
      "North Atlantic": BASIN_ENV_PRESSURE["NA"],
  }
  \<close>
\<close>

definition BASIN_ENV_PRESSURE_CXML :: "extern \<Rightarrow> string \<Rightarrow> real option" where
  "BASIN_ENV_PRESSURE_CXML ext =
     map_of [(''Southwest Pacific'', BASIN_ENV_PRESSURE ext ''SP''),
             (''North Indian'', BASIN_ENV_PRESSURE ext ''NI''),
             (''Northeast Pacific'', BASIN_ENV_PRESSURE ext ''EP''),
             (''Northwest Pacific'', BASIN_ENV_PRESSURE ext ''WP''),
             (''North Atlantic'', BASIN_ENV_PRESSURE ext ''NA'')]"

definition cell_isna :: "cell \<Rightarrow> bool" where
  "cell_isna c = (case c of CFloat v \<Rightarrow> isnan v | CStr _ \<Rightarrow> False)"

text \<open>
  \<^verbatim>\<open>
  all_storms_df.dropna(subset=["validTime", "latitude", "longitude"], how="any", inplace=True)
  if basin_env_pressures is None:
      basin_env_pressures = BASIN_ENV_PRESSURE_CXML
  default_env_pressure = all_storms_df.basin.replace(basin_env_pressures)
  all_storms_df["is_named_storm"] = -all_storms_df["cycloneName"].isna()
  default_name = all_storms_df["cycloneNumber"].astype(str) + " - " + all_storms_df["basin"]
  all_storms_df.fillna(
      {"cycloneName": default_name, "lastClosedIsobar": default_env_pressure}, inplace=True)
  \<close>
  The part of \<^verbatim>\<open>_cxml_to_df\<close> after the table is read. \<^verbatim>\<open>replace\<close> leaves a basin that
  is not a key of the dictionary as it is, so the default of such a row is its basin name
  (and a missing basin gives no default).
\<close>

definition default_env_pressure :: "(string \<Rightarrow> real option) \<Rightarrow> cxml_row \<Rightarrow> cell option" where
  "default_env_pressure basin_env_pressures r =
     (case basin r of
        None \<Rightarrow> None
      | Some b \<Rightarrow> (case basin_env_pressures b of Some p \<Rightarrow> Some (CFloat (Fin p)) | None \<Rightarrow> Some (CStr b)))"

definition default_name :: "cxml_row \<Rightarrow> string option" where
  "default_name r =
     (case basin r of
        None \<Rightarrow> None
      | Some b \<Rightarrow>
          Some ((case cycloneNumber r of None \<Rightarrow> ''<NA>'' | Some n \<Rightarrow> str_int n) @ '' - '' @ b))"

definition fill_row :: "(string \<Rightarrow> real option) \<Rightarrow> cxml_row \<Rightarrow> storm_row" where
  "fill_row basin_env_pressures r =
     \<lparr>disturbance_no = disturbance_no r, baseTime = baseTime r, validTime = validTime r,
      basin = basin r, cycloneNumber = cycloneNumber r, member = member r,
      cycloneName = (case cycloneName r of None \<Rightarrow> default_name r | Some n \<Rightarrow> Some n),
      hour = hour r, latitude = latitude r, longitude = longitude r,
      maximumWind = maximumWind r, minimumPressure = minimumPressure r,
      maximumWindRadius = maximumWindRadius r,
      lastClosedIsobar =
        (if cell_isna (lastClosedIsobar r) then
           (case default_env_pressure basin_env_pressures r of
              None \<Rightarrow> lastClosedIsobar r | Some c \<Rightarrow> c)
         else lastClosedIsobar r),
      id_col = id_col r, origin = origin r,
      is_named_storm = (cycloneName r \<noteq> None)\<rparr>"

definition cxml_to_df ::
  "extern \<Rightarrow> (string \<Rightarrow> real option) option \<Rightarrow> cxml_row list \<Rightarrow> storm_row list" where
  "cxml_to_df ext basin_env_pressures all_storms_df =
     map (fill_row (case basin_env_pressures of None \<Rightarrow> BASIN_ENV_PRESSURE_CXML ext | Some d \<Rightarrow> d))
       (filter (\<lambda>r. validTime r \<noteq> None \<and> \<not> isnan (latitude r) \<and> \<not> isnan (longitude r))
          all_storms_df)"

text \<open>
  The dataset \<^verbatim>\<open>_fcastdf_to_ds\<close> builds from the rows of one group. \<^verbatim>\<open>.iloc[0]\<close> raises
  \<^verbatim>\<open>IndexError\<close> on a group without rows. The variables \<^verbatim>\<open>hour\<close> and \<^verbatim>\<open>basin\<close> and the
  attribute \<^verbatim>\<open>is_named_storm\<close> are the fields \<open>hour_var\<close>, \<open>basin_var\<close> and
  \<open>named_storm\<close> (the columns of the table have these names already).
  \<^verbatim>\<open>
  "radius_max_wind": ("time", track_as_df["maximumWindRadius"].values),
  "environmental_pressure": ("time", track_as_df["minimumPressure"].values),
  "basin": ("time", track_as_df["basin"].values),
  \<close>
\<close>

record cxml_track =
  time :: "int option list"
  lat :: "float64 list"
  lon :: "float64 list"
  max_sustained_wind :: "float64 list"
  central_pressure :: "float64 list"
  hour_var :: "int option list"
  radius_max_wind :: "float64 list"
  environmental_pressure :: "float64 list"
  basin_var :: "string option list"
  max_sustained_wind_unit :: string
  central_pressure_unit :: string
  name :: "string option"
  sid :: "string option"
  orig_event_flag :: bool
  data_provider :: "string option"
  id_no :: "int option"
  ensemble_number :: "int option"
  is_ensemble :: bool
  run_datetime :: "int option"
  named_storm :: bool

definition fcastdf_to_ds :: "storm_row list \<Rightarrow> cxml_track io" where
  "fcastdf_to_ds track_as_df =
     (case track_as_df of
        [] \<Rightarrow> io_raise IndexError
      | first # _ \<Rightarrow>
          io_return
            \<lparr>time = map validTime track_as_df,
             lat = map latitude track_as_df,
             lon = map longitude track_as_df,
             max_sustained_wind = map maximumWind track_as_df,
             central_pressure = map minimumPressure track_as_df,
             hour_var = map hour track_as_df,
             radius_max_wind = map maximumWindRadius track_as_df,
             environmental_pressure = map minimumPressure track_as_df,
             basin_var = map basin track_as_df,
             max_sustained_wind_unit = ''m/s'',
             central_pressure_unit = ''mb'',
             name = cycloneName first,
             sid = id_col first,
             orig_event_flag = False,
             data_provider = origin first,
             id_no = cycloneNumber first,
             ensemble_number = member first,
             is_ensemble = (member first \<noteq> None),
             run_datetime = baseTime first,
             named_storm = is_named_storm first\<rparr>)"

text \<open>
  \<^verbatim>\<open>df.groupby([...], sort=False, dropna=False)\<close>: the groups in the order in which their
  keys first appear, each with its rows in the order of the table.
\<close>

fun groupby :: "('a \<Rightarrow> 'k) \<Rightarrow> 'a list \<Rightarrow> 'a list list" where
  "groupby key_of [] = []"
| "groupby key_of (x # xs) =
     (x # filter (\<lambda>y. key_of y = key_of x) xs)
       # groupby key_of (filter (\<lambda>y. key_of y \<noteq> key_of x) xs)"

fun datasets :: "storm_row list list \<Rightarrow> cxml_track list io" where
  "datasets [] = io_return []"
| "datasets (g # gs) =
     io_bind (fcastdf_to_ds g) (\<lambda>t. io_bind (datasets gs) (\<lambda>ts. io_return (t # ts)))"

text \<open>
  \<^verbatim>\<open>read_cxml\<close> on the table of the document:
  \<^verbatim>\<open>
  df_groupby = df.groupby(
      ["disturbance_no", "baseTime", "basin", "cycloneNumber", "member"], sort=False, dropna=False)
  instance.data = [cls._fcastdf_to_ds(subdf) for _, subdf in df_groupby]
  \<close>
\<close>

definition read_cxml :: "extern \<Rightarrow> cxml_row list \<Rightarrow> cxml_track list io" where
  "read_cxml ext table =
     datasets
       (groupby (\<lambda>r. (disturbance_no r, baseTime r, basin r, cycloneNumber r, member r))
          (cxml_to_df ext None table))"

section \<open>The canonical trajectory\<close>

text \<open>
  The \<^verbatim>\<open>xr.Dataset\<close> that \<^verbatim>\<open>_subset_to_track\<close> returns: the coordinates and variables
  along \<^verbatim>\<open>time\<close> (times in microseconds since the epoch, \<open>time_step\<close> in hours), then
  the attributes.
\<close>

record track =
  time :: "int list"
  lat :: "float64 list"
  lon :: "float64 list"
  max_sustained_wind :: "float64 list"
  central_pressure :: "float64 list"
  time_step :: "int list"
  radius_max_wind :: "float64 list"
  environmental_pressure :: "float64 list"
  basin :: "string list"
  max_sustained_wind_unit :: string
  central_pressure_unit :: string
  name :: string
  sid :: string
  orig_event_flag :: bool
  data_provider :: string
  id_no :: real
  ensemble_number :: int
  is_ensemble :: bool
  run_datetime :: int
  category :: string

section \<open>The bulletin decoder: the first part of \<^verbatim>\<open>read_one_bufr_tc\<close>\<close>

text \<open>
  The per-member series the loop over the time steps grows (\<^verbatim>\<open>latitude\<close>,
  \<^verbatim>\<open>longitude\<close>, \<^verbatim>\<open>pressure\<close>, \<^verbatim>\<open>max_wind\<close>: dictionaries with the keys
  \<^verbatim>\<open>0 .. n_ens-1\<close>, here lists indexed by the member) and the lead times
  \<^verbatim>\<open>timesteps_int\<close>. The dictionary \<^verbatim>\<open>msg\<close> holds them under the keys \<^verbatim>\<open>'latitude'\<close>,
  \<^verbatim>\<open>'longitude'\<close>, \<^verbatim>\<open>'pressure'\<close>, \<^verbatim>\<open>'wind_10m'\<close> and \<^verbatim>\<open>'timestamp'\<close>, beside the
  metadata.
\<close>

record series =
  timesteps_int :: "pyval list"
  latitude :: "float64 list list"
  longitude :: "float64 list list"
  pressure :: "float64 list list"
  max_wind :: "float64 list list"

record msg = series +
  wmo_longname :: string
  storm_id :: string
  ens_type :: "int list"
  ens_number :: "int list"

text \<open>
  One round of \<^verbatim>\<open>for ind_timestep in range(1, n_timestep)\<close> (lines 303-344): the lead
  time, the significance of the position group (1, the storm centre, or
  \<^verbatim>\<open>ValueError\<close>), position and pressure, the significance of the wind group (3, the
  location of the maximum wind, or \<^verbatim>\<open>ValueError\<close>), the wind, the four checks, and one
  more value at the end of every member's series.
\<close>

definition append_column :: "nat \<Rightarrow> float64 list list \<Rightarrow> float64 list \<Rightarrow> float64 list list" where
  "append_column n_ens d col = map (\<lambda>ind_ens. d ! ind_ens @ [col ! ind_ens]) [0..<n_ens]"

definition decode_step :: "bufr \<Rightarrow> nat \<Rightarrow> nat \<Rightarrow> series \<Rightarrow> series io" where
  "decode_step b n_ens ind_timestep s =
    (let rank1 = ind_timestep * 2 + 2; rank3 = ind_timestep * 2 + 3 in
     io_bind (codes_get_long_array b (Rank ind_timestep ''timePeriod'')) (\<lambda>timestep.
     io_bind (get_value_from_bufr_array timestep) (\<lambda>timestep_value.
     io_bind (codes_get_long_array b (Rank rank1 ''meteorologicalAttributeSignificance'')) (\<lambda>sig_values.
     io_bind (get_value_from_bufr_array sig_values) (\<lambda>significance.
     io_bind (py_if_eq significance 1) (\<lambda>is_centre.
     if \<not> is_centre then
       io_raise (ValueError [PStr ''unexpected meteorologicalAttributeSignificance='', significance])
     else
     io_bind (codes_get_double_array b (Rank rank1 ''latitude'')) (\<lambda>lat_temp.
     io_bind (codes_get_double_array b (Rank rank1 ''longitude'')) (\<lambda>lon_temp.
     io_bind (codes_get_double_array b (Rank (ind_timestep + 1) ''pressureReducedToMeanSeaLevel'')) (\<lambda>pre_temp.
     io_bind (codes_get_long_array b (Rank rank3 ''meteorologicalAttributeSignificance'')) (\<lambda>sig_values3.
     io_bind (get_value_from_bufr_array sig_values3) (\<lambda>significanceWind.
     io_bind (py_if_eq significanceWind 3) (\<lambda>is_max_wind.
     if \<not> is_max_wind then
       io_raise (ValueError [PStr ''unexpected meteorologicalAttributeSignificance='', significance])
     else
     io_bind (codes_get_double_array b (Rank (ind_timestep + 1) ''windSpeedAt10M'')) (\<lambda>wnd_temp.
     io_bind (check_variable lat_temp n_ens (''Latitude at time '' @ str_nat ind_timestep)) (\<lambda>lat.
     io_bind (check_variable lon_temp n_ens (''Longitude at time '' @ str_nat ind_timestep)) (\<lambda>lon.
     io_bind (check_variable pre_temp n_ens (''Pressure at time '' @ str_nat ind_timestep)) (\<lambda>pre.
     io_bind (check_variable wnd_temp n_ens (''Maximum 10m wind at time '' @ str_nat ind_timestep)) (\<lambda>wnd.
     io_return
       \<lparr>timesteps_int = (timesteps_int s)[ind_timestep := timestep_value],
        latitude = append_column n_ens (latitude s) lat,
        longitude = append_column n_ens (longitude s) lon,
        pressure = append_column n_ens (pressure s) pre,
        max_wind = append_column n_ens (max_wind s) wnd\<rparr>)))))))))))))))))"

fun decode_steps :: "bufr \<Rightarrow> nat \<Rightarrow> nat list \<Rightarrow> series \<Rightarrow> series io" where
  "decode_steps b n_ens [] s = io_return s"
| "decode_steps b n_ens (ind_timestep # rest) s =
     io_bind (decode_step b n_ens ind_timestep s) (decode_steps b n_ens rest)"

text \<open>
  Lines 243-370 of \<^verbatim>\<open>read_one_bufr_tc\<close>, up to the loop over the members: the issuance
  time, the storm identifier, the number of time steps (a message without
  \<^verbatim>\<open>timePeriod\<close> is logged and skipped: the result \<open>None\<close>), the members, the analysis
  step, the forecast steps, the dictionary \<^verbatim>\<open>msg\<close>, the identifier and the provider.
\<close>

definition decode_message ::
  "extern \<Rightarrow> bufr \<Rightarrow> int option \<Rightarrow> (msg \<times> string \<times> int \<times> int \<times> nat) option io" where
  "decode_message ext b id_arg =
     io_bind (codes_get_long b ''year'') (\<lambda>year.
     io_bind (codes_get_long b ''month'') (\<lambda>month.
     io_bind (codes_get_long b ''day'') (\<lambda>day.
     io_bind (codes_get_long b ''hour'') (\<lambda>hour.
     io_bind (codes_get_long b ''minute'') (\<lambda>minute.
     io_bind (py_datetime64 year month day hour minute) (\<lambda>timestamp_origin.
     io_bind (codes_get_string b ''stormIdentifier'') (\<lambda>sid_raw.
     let sid = strip sid_raw in
     case get_size b ''timePeriod'' of
       None \<Rightarrow>
         io_bind (io_log (LogRecord WARNING
             ''Track %s has no defined timePeriod. Track is discarded.'' [LVal (PStr sid)]))
           (\<lambda>_. io_return None)
     | Some size_timePeriod \<Rightarrow>
     let n_timestep = size_timePeriod + 1 in
     io_bind (codes_get_long_array b (Key ''ensembleMemberNumber'')) (\<lambda>ens_no.
     let n_ens = length ens_no in
     io_bind (codes_get_long_array b (Key ''ensembleForecastType'')) (\<lambda>ens_type0.
     let ens_type = (if length ens_type0 = 1 then replicate n_ens (ens_type0 ! 0) else ens_type0) in
     io_bind (codes_get_double_array b (Rank 2 ''latitude'')) (\<lambda>lat_init_temp.
     io_bind (codes_get_double_array b (Rank 2 ''longitude'')) (\<lambda>lon_init_temp.
     io_bind (codes_get_double_array b (Rank 1 ''pressureReducedToMeanSeaLevel'')) (\<lambda>pre_init_temp.
     io_bind (codes_get_double_array b (Rank 1 ''windSpeedAt10M'')) (\<lambda>wnd_init_temp.
     io_bind (check_variable lat_init_temp n_ens ''Latitude at time 0'') (\<lambda>lat_init.
     io_bind (check_variable lon_init_temp n_ens ''Longitude at time 0'') (\<lambda>lon_init.
     io_bind (check_variable pre_init_temp n_ens ''Pressure at time 0'') (\<lambda>pre_init.
     io_bind (check_variable wnd_init_temp n_ens ''Maximum 10m wind at time 0'') (\<lambda>wnd_init.
     io_bind (decode_steps b n_ens [1..<n_timestep]
         \<lparr>timesteps_int = replicate n_timestep (PInt 0),
          latitude = map (\<lambda>ind_ens. [lat_init ! ind_ens]) [0..<n_ens],
          longitude = map (\<lambda>ind_ens. [lon_init ! ind_ens]) [0..<n_ens],
          pressure = map (\<lambda>ind_ens. [pre_init ! ind_ens]) [0..<n_ens],
          max_wind = map (\<lambda>ind_ens. [wnd_init ! ind_ens]) [0..<n_ens]\<rparr>) (\<lambda>s.
     io_bind (codes_get_string b ''longStormName'') (\<lambda>longname_raw.
     let m = \<lparr>timesteps_int = timesteps_int s, latitude = latitude s, longitude = longitude s,
              pressure = pressure s, max_wind = max_wind s,
              wmo_longname = strip longname_raw, storm_id = sid,
              ens_type = ens_type, ens_number = ens_no\<rparr>;
         id_no' = (case id_arg of None \<Rightarrow> default_id ext timestamp_origin | Some i \<Rightarrow> i) in
     io_bind (codes_get_long b ''centre'') (\<lambda>orig_centre.
     let provider = (if orig_centre = 98 then ''ECMWF'' else ''BUFR code '' @ str_int orig_centre) in
     io_return (Some (m, provider, timestamp_origin, id_no', n_ens))))))))))))))))))))))"

section \<open>The track assembler: \<^verbatim>\<open>_subset_to_track\<close>\<close>

text \<open>
  \<^verbatim>\<open>xr.Dataset(...)\<close> on the five columns raises \<^verbatim>\<open>ValueError\<close> when their lengths along
  \<^verbatim>\<open>time\<close> differ, and also when a column has one entry only: \<^verbatim>\<open>np.squeeze\<close> turns the
  wind, the pressure and the lead times of a single step into arrays without a dimension,
  which cannot be given the dimension \<^verbatim>\<open>time\<close>.
\<close>

definition dataset_ok :: "int list \<Rightarrow> float64 list \<Rightarrow> float64 list \<Rightarrow> float64 list \<Rightarrow> float64 list \<Rightarrow> bool" where
  "dataset_ok timestep_int lat_col lon_col wnd pre =
     (length lat_col = length timestep_int \<and> length lon_col = length timestep_int \<and>
      length wnd = length timestep_int \<and> length pre = length timestep_int \<and>
      length timestep_int \<noteq> 1)"

text \<open>
  \<^verbatim>\<open>track.dropna('time')\<close> keeps the time steps at which no data variable is NaN. The
  data variables of the dataset are \<^verbatim>\<open>max_sustained_wind\<close>, \<^verbatim>\<open>central_pressure\<close> and
  \<^verbatim>\<open>ts_int\<close> (integers, never NaN); \<^verbatim>\<open>lat\<close> and \<^verbatim>\<open>lon\<close> are passed under \<^verbatim>\<open>coords\<close>,
  and \<^verbatim>\<open>Dataset.dropna\<close> looks at the data variables only.
\<close>

definition dropna_mask :: "float64 list \<Rightarrow> float64 list \<Rightarrow> bool list" where
  "dropna_mask wnd pre = map (\<lambda>(w, p). \<not> isnan w \<and> \<not> isnan p) (zip wnd pre)"

text \<open>
  \<^verbatim>\<open>
  def _subset_to_track(msg, index, provider, timestamp_origin, name, id_no):
      lat = np.array(msg['latitude'][index], dtype='float')
      lon = np.array(msg['longitude'][index], dtype='float')
      wnd = np.array(msg['wind_10m'][index], dtype='float')
      pre = np.array(msg['pressure'][index], dtype='float')
      sid = msg['storm_id'].strip()
      timestep_int = np.array(msg['timestamp']).squeeze()
      timestamp = timestamp_origin + timestep_int.astype('timedelta64[h]')
      ens_bool = msg['ens_type'][index] != 0
      try:
          track = xr.Dataset(
              data_vars={'max_sustained_wind': ('time', np.squeeze(wnd)),
                         'central_pressure': ('time', np.squeeze(pre)/100),
                         'ts_int': ('time', timestep_int)},
              coords={'time': timestamp, 'lat': ('time', lat), 'lon': ('time', lon)},
              attrs={..., 'id_no': (int(id_no) + index / 100),
                     'ensemble_number': msg['ens_number'][index],
                     'is_ensemble': ens_bool, 'run_datetime': timestamp_origin})
      except ValueError as err:
          LOGGER.warning('Could not process track %s subset %d, error: %s', sid, index, err)
          return None
      track = track.dropna('time')
      if track.sizes['time'] == 0:
          return None
      # can only make latlon coords after dropna
      track = track.set_coords(['lat', 'lon'])
      track['time_step'] = track.ts_int - track.ts_int.shift({'time': 1}, fill_value=0)
      track = track.drop_vars(['ts_int'])
      track['radius_max_wind'] = (('time'), np.full_like(track.time, np.nan, dtype=float))
      track['environmental_pressure'] = (('time'), np.full_like(track.time, DEF_ENV_PRESSURE, dtype=float))
      track['basin'] = ('time', np.full_like(track.time, sid[2], dtype='<U2'))
      if sid[2] == 'X':
          LOGGER.info('Undefined basin %s for track name %s ensemble no. %d', ...)
      cat_name = CAT_NAMES[set_category(...)]
      track.attrs['category'] = cat_name
      return track
  \<close>
  The text of xarray's error is not part of the model: the warning carries the error
  without arguments.
\<close>

definition subset_to_track ::
  "extern \<Rightarrow> msg \<Rightarrow> nat \<Rightarrow> string \<Rightarrow> int \<Rightarrow> string \<Rightarrow> int \<Rightarrow> track option io" where
  "subset_to_track ext m index provider timestamp_origin track_name id_arg =
     io_bind (dict_get (latitude m) index) (\<lambda>lat_col.
     io_bind (dict_get (longitude m) index) (\<lambda>lon_col.
     io_bind (dict_get (max_wind m) index) (\<lambda>wnd.
     io_bind (dict_get (pressure m) index) (\<lambda>pre.
     let storm = strip (storm_id m) in
     io_bind (np_array_int (timesteps_int m)) (\<lambda>timestep_int.
     let timestamp = map (\<lambda>h. timestamp_origin + h * HOUR_US) timestep_int in
     io_bind (array_get (ens_type m) index) (\<lambda>member_type.
     let ens_bool = (member_type \<noteq> 0) in
     io_bind (array_get (ens_number m) index) (\<lambda>member_number.
     if \<not> dataset_ok timestep_int lat_col lon_col wnd pre then
       io_bind (io_log (LogRecord WARNING ''Could not process track %s subset %d, error: %s''
                  [LVal (PStr storm), LVal (PInt (int index)), LErr (ValueError [])]))
         (\<lambda>_. io_return None)
     else
     let central = map (\<lambda>v. fdiv v 100) pre;
         keep = dropna_mask wnd central;
         ts_int = isel keep timestep_int in
     if length (isel keep timestamp) = 0 then io_return None
     else
     io_bind (array_get storm 2) (\<lambda>basin_code.
     io_bind (if basin_code = CHR ''X'' then
                io_log (LogRecord INFO ''Undefined basin %s for track name %s ensemble no. %d''
                  [LVal (PStr [basin_code]), LVal (PStr track_name), LVal (PInt member_number)])
              else io_return ()) (\<lambda>_.
     io_return (Some
       \<lparr>time = isel keep timestamp,
        lat = isel keep lat_col,
        lon = isel keep lon_col,
        max_sustained_wind = isel keep wnd,
        central_pressure = isel keep central,
        time_step = map (\<lambda>(a, b). a - b) (zip ts_int (shift1 0 ts_int)),
        radius_max_wind = replicate (length (isel keep timestamp)) NaN,
        environmental_pressure = replicate (length (isel keep timestamp)) (Fin (DEF_ENV_PRESSURE ext)),
        basin = replicate (length (isel keep timestamp)) [basin_code],
        max_sustained_wind_unit = ''m/s'',
        central_pressure_unit = ''mb'',
        name = track_name,
        sid = storm,
        orig_event_flag = False,
        data_provider = provider,
        id_no = real_of_int id_arg + real index / 100,
        ensemble_number = member_number,
        is_ensemble = ens_bool,
        run_datetime = timestamp_origin,
        category = category_name ext (isel keep wnd)\<rparr>))))))))))"

section \<open>\<^verbatim>\<open>read_one_bufr_tc\<close> and \<^verbatim>\<open>fetch_ecmwf\<close>\<close>

text \<open>
  A method of \<^verbatim>\<open>TCForecast\<close> works on \<^verbatim>\<open>self.data\<close>, the list of tracks. It ends with an
  error or without, and in both cases leaves a list of tracks and the log records it
  wrote.
\<close>

type_synonym run = "(error option \<times> track list) \<times> log_record list"

text \<open>
  Lines 372-380: \<^verbatim>\<open>for i in range(n_ens)\<close>, with \<^verbatim>\<open>self.append(track)\<close> for a track and a
  debug record for \<^verbatim>\<open>None\<close>. An error of \<^verbatim>\<open>_subset_to_track\<close> ends the loop; the tracks
  appended before it stay in \<^verbatim>\<open>self.data\<close>.
\<close>

fun append_tracks ::
  "extern \<Rightarrow> msg \<Rightarrow> string \<Rightarrow> int \<Rightarrow> int \<Rightarrow> nat list \<Rightarrow> track list \<Rightarrow> run" where
  "append_tracks ext m provider timestamp_origin id_arg [] data = ((None, data), [])"
| "append_tracks ext m provider timestamp_origin id_arg (i # rest) data =
     (case subset_to_track ext m i provider timestamp_origin (wmo_longname m) id_arg of
        (Inl e, l) \<Rightarrow> ((Some e, data), l)
      | (Inr (Some t), l) \<Rightarrow>
          (case append_tracks ext m provider timestamp_origin id_arg rest (data @ [t]) of
             (r, l') \<Rightarrow> (r, l @ l'))
      | (Inr None, l) \<Rightarrow>
          (case append_tracks ext m provider timestamp_origin id_arg rest data of
             (r, l') \<Rightarrow>
               (r, l @ [LogRecord DEBUG ''Dropping empty track %s, subset %d''
                          [LVal (PStr (wmo_longname m)), LVal (PInt (int i))]] @ l')))"

text \<open>
  \<^verbatim>\<open>read_one_bufr_tc(self, file, id_no)\<close> on the message of the file: the decoder, then
  the loop over the members. A message without \<^verbatim>\<open>timePeriod\<close> returns at once.
\<close>

definition read_one_bufr_tc :: "extern \<Rightarrow> track list \<Rightarrow> bufr \<Rightarrow> int option \<Rightarrow> run" where
  "read_one_bufr_tc ext data file id_arg =
     (case decode_message ext file id_arg of
        (Inl e, l) \<Rightarrow> ((Some e, data), l)
      | (Inr None, l) \<Rightarrow> ((None, data), l)
      | (Inr (Some (m, provider, timestamp_origin, id_no', n_ens)), l) \<Rightarrow>
          (case append_tracks ext m provider timestamp_origin id_no' [0..<n_ens] data of
             (r, l') \<Rightarrow> (r, l @ l')))"

text \<open>
  \<^verbatim>\<open>
  for i, file in tqdm.tqdm(enumerate(files, 1), ...):
      ...
      self.read_one_bufr_tc(file, id_no=i)
      file.close()
  \<close>
  \<^verbatim>\<open>fetch_ecmwf\<close> on a list of files, each holding one message. Nothing catches an
  error of \<^verbatim>\<open>read_one_bufr_tc\<close>: it ends the loop and reaches the caller.
\<close>

fun fetch_loop :: "extern \<Rightarrow> track list \<Rightarrow> int \<Rightarrow> bufr list \<Rightarrow> run" where
  "fetch_loop ext data i [] = ((None, data), [])"
| "fetch_loop ext data i (file # files) =
     (case read_one_bufr_tc ext data file (Some i) of
        ((Some e, data'), l) \<Rightarrow> ((Some e, data'), l)
      | ((None, data'), l) \<Rightarrow>
          (case fetch_loop ext data' (i + 1) files of (r, l') \<Rightarrow> (r, l @ l')))"

definition fetch_ecmwf :: "extern \<Rightarrow> track list \<Rightarrow> bufr list \<Rightarrow> run" where
  "fetch_ecmwf ext data files = fetch_loop ext data 1 files"

section \<open>Sample inputs\<close>

text \<open>
  Values for the parameters (the pressures are those of \<^verbatim>\<open>climada.hazard.tc_tracks\<close>;
  the category is not computed in the samples).
\<close>

definition sample_extern :: extern where
  "sample_extern =
     \<lparr>DEF_ENV_PRESSURE = 1010,
      BASIN_ENV_PRESSURE = (\<lambda>b. if b = ''NI'' \<or> b = ''SI'' \<or> b = ''WP'' then 1005
                                else if b = ''SP'' then 1004 else 1010),
      category_name = (\<lambda>_. ''Tropical Storm''),
      default_id = (\<lambda>_. 20240101001234)\<rparr>"

text \<open>
  A message of two members and three time steps (the analysis and the lead times 6 h and
  12 h), issued 2024-01-01 00:00, with every value defined.
\<close>

definition sample_message :: bufr where
  "sample_message =
     \<lparr>get_long = map_of [(''year'', 2024), (''month'', 1), (''day'', 1), (''hour'', 0),
                          (''minute'', 0), (''centre'', 98)],
      get_string = map_of [(''stormIdentifier'', ''01L ''), (''longStormName'', ''ALPHA '')],
      get_size = map_of [(''timePeriod'', 2)],
      get_long_array = map_of
        [(Key ''ensembleMemberNumber'', [1, 2]), (Key ''ensembleForecastType'', [0, 4]),
         (Rank 1 ''timePeriod'', [6]), (Rank 2 ''timePeriod'', [12]),
         (Rank 4 ''meteorologicalAttributeSignificance'', [1]),
         (Rank 5 ''meteorologicalAttributeSignificance'', [3]),
         (Rank 6 ''meteorologicalAttributeSignificance'', [1]),
         (Rank 7 ''meteorologicalAttributeSignificance'', [3])],
      get_double_array = map_of
        [(Rank 2 ''latitude'', [Fin 10, Fin 11]), (Rank 2 ''longitude'', [Fin 20, Fin 21]),
         (Rank 1 ''pressureReducedToMeanSeaLevel'', [Fin 100000, Fin 100100]),
         (Rank 1 ''windSpeedAt10M'', [Fin 30, Fin 31]),
         (Rank 4 ''latitude'', [Fin 12, Fin 13]), (Rank 4 ''longitude'', [Fin 22, Fin 23]),
         (Rank 2 ''pressureReducedToMeanSeaLevel'', [Fin 99000, Fin 99100]),
         (Rank 2 ''windSpeedAt10M'', [Fin 32, Fin 33]),
         (Rank 6 ''latitude'', [Fin 14, Fin 15]), (Rank 6 ''longitude'', [Fin 24, Fin 25]),
         (Rank 3 ''pressureReducedToMeanSeaLevel'', [Fin 98000, Fin 98100]),
         (Rank 3 ''windSpeedAt10M'', [Fin 34, Fin 35])]\<rparr>"


text \<open>The same message with one integer array or one double array replaced.\<close>

definition with_long_array :: "bufr \<Rightarrow> key \<Rightarrow> int list \<Rightarrow> bufr" where
  "with_long_array b k v = b\<lparr>get_long_array := (get_long_array b)(k \<mapsto> v)\<rparr>"

definition with_double_array :: "bufr \<Rightarrow> key \<Rightarrow> float64 list \<Rightarrow> bufr" where
  "with_double_array b k v = b\<lparr>get_double_array := (get_double_array b)(k \<mapsto> v)\<rparr>"

text \<open>The significance of the position group at the first forecast step is 2, not 1.\<close>

definition unexpected_message :: bufr where
  "unexpected_message =
     with_long_array sample_message (Rank 4 ''meteorologicalAttributeSignificance'') [2]"




text \<open>The second member has no latitude at the first forecast step.\<close>

definition missing_latitude_message :: bufr where
  "missing_latitude_message =
     with_double_array sample_message (Rank 4 ''latitude'') [Fin 12, MISSING_DOUBLE]"

text \<open>
  Bundles of one member and four time steps (lead times 0, 6, 12 and 18 h), as
  \<^verbatim>\<open>_subset_to_track\<close> takes them: the wind is undefined at the third step, or at the first.
\<close>

definition one_member_bundle :: "float64 list \<Rightarrow> msg" where
  "one_member_bundle wnd =
     \<lparr>timesteps_int = [PInt 0, PInt 6, PInt 12, PInt 18],
      latitude = [[Fin 10, Fin 11, Fin 12, Fin 13]],
      longitude = [[Fin 20, Fin 21, Fin 22, Fin 23]],
      pressure = [[Fin 100000, Fin 99000, Fin 98000, Fin 97000]],
      max_wind = [wnd],
      wmo_longname = ''ALPHA'', storm_id = ''01L'', ens_type = [4], ens_number = [1]\<rparr>"

definition gap_bundle :: msg where
  "gap_bundle = one_member_bundle [Fin 30, Fin 31, NaN, Fin 33]"

definition late_bundle :: msg where
  "late_bundle = one_member_bundle [NaN, Fin 31, Fin 32, Fin 33]"


text \<open>
  One row of a CXML table: a North Atlantic storm with a minimum pressure of 990 hPa, whose
  last closed isobar is not given.
\<close>

definition sample_row :: cxml_row where
  "sample_row =
     \<lparr>disturbance_no = Some 1, baseTime = Some 1704067200000000,
      validTime = Some 1704088800000000, basin = Some ''North Atlantic'',
      cycloneNumber = Some 5, member = Some 3, cycloneName = None, hour = Some 6,
      latitude = Fin 10, longitude = Fin 20, maximumWind = Fin 30, minimumPressure = Fin 990,
      maximumWindRadius = NaN, lastClosedIsobar = CFloat NaN,
      id_col = Some ''2024010100_10N_20E'', origin = Some ''ecmf''\<rparr>"

text \<open>The track of \<open>gap_bundle\<close>, and the track of member \<open>i\<close> of \<open>wide_bundle\<close>.\<close>

definition gap_track :: track where
  "gap_track =
     \<lparr>time = [1704067200000000, 1704088800000000, 1704132000000000],
      lat = [Fin 10, Fin 11, Fin 13], lon = [Fin 20, Fin 21, Fin 23],
      max_sustained_wind = [Fin 30, Fin 31, Fin 33],
      central_pressure = [Fin 1000, Fin 990, Fin 970],
      time_step = [0, 6, 12], radius_max_wind = [NaN, NaN, NaN],
      environmental_pressure = [Fin 1010, Fin 1010, Fin 1010],
      basin = [''L'', ''L'', ''L''], max_sustained_wind_unit = ''m/s'',
      central_pressure_unit = ''mb'', name = ''ALPHA'', sid = ''01L'',
      orig_event_flag = False, data_provider = ''ECMWF'',
      id_no = 2024010100, ensemble_number = 1, is_ensemble = True,
      run_datetime = 1704067200000000, category = ''Tropical Storm''\<rparr>"


section \<open>Properties of the normalizer\<close>

text \<open>
  C7. For an expected member count \<open>n \<ge> 1\<close> and an array of exactly \<open>n\<close> entries, the
  normalizer returns an array of \<open>n\<close> entries, and on that array it returns the same
  array again (and logs nothing both times): normalizing is idempotent.
\<close>

theorem check_variable_idempotent:
  assumes "1 \<le> n" and "length var = n"
  shows "\<exists>out. check_variable var n varname = (Inr out, []) \<and> length out = n
           \<and> check_variable out n varname' = (Inr out, [])"
  using assms by (simp add: check_variable_def io_return_def)

theorem check_variable_idempotent_witness:
  "check_variable [Fin 3, MISSING_DOUBLE, NaN] 3 ''Latitude at time 0'' = (Inr [Fin 3, NaN, NaN], [])
   \<and> check_variable [Fin 3, NaN, NaN] 3 ''Latitude at time 0'' = (Inr [Fin 3, NaN, NaN], [])"
  using check_variable_idempotent
    [of 3 "[Fin 3, MISSING_DOUBLE, NaN]" "''Latitude at time 0''" "''Latitude at time 0''"]
  by (simp add: check_variable_def io_return_def MISSING_DOUBLE_def)

text \<open>
  C5, as the code has it. For an expected member count \<open>n \<ge> 1\<close>: an array of \<open>n\<close>
  entries comes back with every entry equal to the sentinel replaced by NaN; a single
  sentinel gives \<open>n\<close> NaNs; a single other value is repeated \<open>n\<close> times; every other
  length raises \<^verbatim>\<open>ValueError\<close> and returns no array. The error is raised without any
  argument: it names neither the field nor the lengths.
\<close>

theorem check_variable_cases:
  assumes "1 \<le> n"
  shows "(length var = n \<longrightarrow>
            (\<exists>out. check_variable var n varname = (Inr out, []) \<and> length out = n \<and>
               (\<forall>i<n. out ! i = (if float_eq (var ! i) MISSING_DOUBLE then NaN else var ! i))))
       \<and> (length var = 1 \<and> float_eq (var ! 0) MISSING_DOUBLE \<longrightarrow>
            fst (check_variable var n varname) = Inr (replicate n NaN))
       \<and> (length var = 1 \<and> \<not> float_eq (var ! 0) MISSING_DOUBLE \<longrightarrow>
            fst (check_variable var n varname) = Inr (replicate n (var ! 0)))
       \<and> (length var \<noteq> n \<and> length var \<noteq> 1 \<longrightarrow>
            check_variable var n varname = (Inl (ValueError []), []))"
proof (intro conjI impI)
  assume "length var = n"
  then show "\<exists>out. check_variable var n varname = (Inr out, []) \<and> length out = n \<and>
               (\<forall>i<n. out ! i = (if float_eq (var ! i) MISSING_DOUBLE then NaN else var ! i))"
    by (simp add: check_variable_def io_return_def)
next
  assume a: "length var = 1 \<and> float_eq (var ! 0) MISSING_DOUBLE"
  then obtain x where x: "var = [x]" by (cases var) auto
  with a show "fst (check_variable var n varname) = Inr (replicate n NaN)"
    by (auto simp add: check_variable_def io_return_def)
next
  assume a: "length var = 1 \<and> \<not> float_eq (var ! 0) MISSING_DOUBLE"
  then obtain x where x: "var = [x]" by (cases var) auto
  with a show "fst (check_variable var n varname) = Inr (replicate n (var ! 0))"
    by (auto simp add: check_variable_def io_return_def io_bind_def io_log_def)
next
  assume "length var \<noteq> n \<and> length var \<noteq> 1"
  then show "check_variable var n varname = (Inl (ValueError []), [])"
    by (simp add: check_variable_def io_raise_def)
qed

theorem check_variable_cases_witness:
  "check_variable [Fin 3, MISSING_DOUBLE] 2 ''Latitude at time 0'' = (Inr [Fin 3, NaN], [])
   \<and> fst (check_variable [MISSING_DOUBLE] 2 ''Latitude at time 0'') = Inr [NaN, NaN]
   \<and> fst (check_variable [Fin 3] 2 ''Latitude at time 0'') = Inr [Fin 3, Fin 3]
   \<and> check_variable [Fin 1, Fin 2, Fin 3] 2 ''Latitude at time 0'' = (Inl (ValueError []), [])"
  using check_variable_cases [of 2 "[Fin 3, MISSING_DOUBLE]" "''Latitude at time 0''"]
    check_variable_cases [of 2 "[MISSING_DOUBLE]" "''Latitude at time 0''"]
    check_variable_cases [of 2 "[Fin 3]" "''Latitude at time 0''"]
    check_variable_cases [of 2 "[Fin 1, Fin 2, Fin 3]" "''Latitude at time 0''"]
  by (simp add: check_variable_def io_return_def io_raise_def io_bind_def io_log_def
      MISSING_DOUBLE_def numeral_2_eq_2)

text \<open>
  C5 as stated fails: three values for two members raise the same bare \<^verbatim>\<open>ValueError\<close>
  under two different field names, so the error identifies neither the field nor the
  mismatch.
\<close>

theorem check_variable_error_counterexample:
  "check_variable [Fin 1, Fin 2, Fin 3] 2 ''Latitude at time 0'' = (Inl (ValueError []), [])
   \<and> check_variable [Fin 1, Fin 2, Fin 3] 2 ''Pressure at time 4'' = (Inl (ValueError []), [])"
  by (simp add: check_variable_def io_raise_def)

section \<open>Facts about the computations\<close>

lemma io_bind_Inr:
  "io_bind m f = (Inr y, l) \<longleftrightarrow>
     (\<exists>x l1 l2. m = (Inr x, l1) \<and> f x = (Inr y, l2) \<and> l = l1 @ l2)"
  by (cases m; cases "fst m") (auto simp: io_bind_def split: prod.splits)

lemma io_return_Inr: "io_return x = (Inr y, l) \<longleftrightarrow> (x = y \<and> l = [])"
  by (auto simp: io_return_def)

lemma io_raise_Inr: "io_raise e \<noteq> (Inr y, l)"
  by (simp add: io_raise_def)

lemma isel_map: "isel keep (map f xs) = map f (isel keep xs)"
proof -
  have "filter snd (zip (map f xs) keep) = map (\<lambda>(x, b). (f x, b)) (filter snd (zip xs keep))"
    by (induction xs arbitrary: keep) (auto split: list.splits simp: zip_Cons1)
  then show ?thesis by (simp add: isel_def comp_def split_beta)
qed

lemma shift1_nth: "k < length xs \<Longrightarrow> shift1 fill xs ! k = (if k = 0 then fill else xs ! (k - 1))"
  by (cases k) (simp_all add: shift1_def)

text \<open>What a track of \<^verbatim>\<open>_subset_to_track\<close> holds in its times, time steps and identifier.\<close>

lemma subset_to_track_Some:
  assumes "subset_to_track ext m index provider t0 nm idn = (Inr (Some trk), l)"
  shows "\<exists>ts. track.time trk = map (\<lambda>h. t0 + h * HOUR_US) ts
            \<and> time_step trk = map (\<lambda>(a, b). a - b) (zip ts (shift1 0 ts))
            \<and> track.run_datetime trk = t0
            \<and> track.id_no trk = real_of_int idn + real index / 100"
  using assms unfolding subset_to_track_def Let_def
  by (auto simp: io_bind_Inr io_return_Inr io_raise_Inr isel_map split: if_splits)

text \<open>The loop of \<^verbatim>\<open>fetch_ecmwf\<close> over a list of files in two parts.\<close>

lemma fetch_loop_append:
  "fetch_loop ext data i pre = ((None, d1), l1) \<Longrightarrow>
   fetch_loop ext data i (pre @ rest) =
     (fst (fetch_loop ext d1 (i + int (length pre)) rest),
      l1 @ snd (fetch_loop ext d1 (i + int (length pre)) rest))"
proof (induction pre arbitrary: data i l1)
  case Nil
  then show ?case by simp
next
  case (Cons f0 pre)
  obtain r d l where ro: "read_one_bufr_tc ext data f0 (Some i) = ((r, d), l)"
    by (metis surj_pair)
  show ?case
  proof (cases r)
    case (Some e)
    with Cons.prems ro show ?thesis by simp
  next
    case None
    obtain r2 d2 l2 where fl: "fetch_loop ext d (i + 1) pre = ((r2, d2), l2)"
      by (metis surj_pair)
    with Cons.prems ro None have eq: "r2 = None" "d2 = d1" "l1 = l @ l2" by auto
    from Cons.IH [of d "i + 1" l2] fl eq
    have "fetch_loop ext d (i + 1) (pre @ rest) =
            (fst (fetch_loop ext d1 (i + 1 + int (length pre)) rest),
             l2 @ snd (fetch_loop ext d1 (i + 1 + int (length pre)) rest))" by simp
    with ro None eq show ?thesis by (simp add: add.assoc)
  qed
qed





section \<open>Properties of \<^verbatim>\<open>get_value_from_bufr_array\<close>\<close>




section \<open>Properties of a run over several messages\<close>



text \<open>
  C1, as the code has it. When the decoder raises the \<^verbatim>\<open>ValueError\<close> of an unexpected
  significance on a message, \<^verbatim>\<open>read_one_bufr_tc\<close> appends no track of that message and
  raises the error; nothing in \<^verbatim>\<open>fetch_ecmwf\<close> catches it, so the run ends there with the
  error: the collection holds the tracks of the messages decoded before it, and whatever
  messages follow (\<open>post\<close>) are not decoded.
\<close>

theorem fetch_ecmwf_unexpected_significance:
  assumes "fetch_ecmwf ext data pre = ((None, d1), l1)"
    and "decode_message ext file (Some (int (length pre) + 1)) =
           (Inl (ValueError [PStr ''unexpected meteorologicalAttributeSignificance='', q]), l)"
  shows "read_one_bufr_tc ext d1 file (Some (int (length pre) + 1)) =
           ((Some (ValueError [PStr ''unexpected meteorologicalAttributeSignificance='', q]), d1), l)
       \<and> fetch_ecmwf ext data (pre @ file # post) =
           ((Some (ValueError [PStr ''unexpected meteorologicalAttributeSignificance='', q]), d1), l1 @ l)"
proof -
  have ro: "read_one_bufr_tc ext d1 file (Some (int (length pre) + 1)) =
           ((Some (ValueError [PStr ''unexpected meteorologicalAttributeSignificance='', q]), d1), l)"
    using assms(2) by (simp add: read_one_bufr_tc_def)
  have "fetch_loop ext data 1 (pre @ file # post) =
     (fst (fetch_loop ext d1 (1 + int (length pre)) (file # post)),
      l1 @ snd (fetch_loop ext d1 (1 + int (length pre)) (file # post)))"
    using fetch_loop_append assms(1) by (simp add: fetch_ecmwf_def)
  then show ?thesis using ro
    by (simp add: fetch_ecmwf_def add.commute)
qed

theorem fetch_ecmwf_unexpected_significance_witness:
  "fst (fetch_ecmwf sample_extern [] [sample_message, unexpected_message, sample_message]) =
     (Some (ValueError [PStr ''unexpected meteorologicalAttributeSignificance='', PInt 2]),
      snd (fst (fetch_ecmwf sample_extern [] [sample_message])))
   \<and> map track.id_no (snd (fst (fetch_ecmwf sample_extern [] [sample_message]))) = [1, 101 / 100]"
proof -
  have h1: "fetch_ecmwf sample_extern [] [sample_message] =
              ((None, snd (fst (fetch_ecmwf sample_extern [] [sample_message]))), [])"
    by code_simp
  have h2: "decode_message sample_extern unexpected_message (Some (int (length [sample_message]) + 1)) =
     (Inl (ValueError [PStr ''unexpected meteorologicalAttributeSignificance='', PInt 2]), [])"
    by code_simp
  have a: "fst (fetch_ecmwf sample_extern [] ([sample_message] @ unexpected_message # [sample_message])) =
     (Some (ValueError [PStr ''unexpected meteorologicalAttributeSignificance='', PInt 2]),
      snd (fst (fetch_ecmwf sample_extern [] [sample_message])))"
    using fetch_ecmwf_unexpected_significance [OF h1 h2, of "[sample_message]"] by simp
  have b: "map track.id_no (snd (fst (fetch_ecmwf sample_extern [] [sample_message]))) = [1, 101 / 100]"
    by code_simp
  from a b show ?thesis by simp
qed

text \<open>
  C1 as stated fails: in the run over the message with the unexpected significance and
  then the sample message, the collection stays empty and the run ends with the error,
  although the sample message alone gives two tracks.
\<close>

theorem fetch_ecmwf_sibling_counterexample:
  "fetch_ecmwf sample_extern [] [unexpected_message, sample_message] =
     ((Some (ValueError [PStr ''unexpected meteorologicalAttributeSignificance='', PInt 2]), []), [])
   \<and> length (snd (fst (fetch_ecmwf sample_extern [] [sample_message]))) = 2"
  by code_simp

section \<open>Properties of the assembled track\<close>

text \<open>
  C2 at a message whose second member has no latitude at the first forecast step (wind and
  pressure are defined everywhere): the track of that member keeps all three time steps,
  with NaN as its second latitude.
\<close>

theorem read_one_bufr_tc_missing_latitude:
  "map (\<lambda>t. (track.lat t, track.max_sustained_wind t, track.central_pressure t))
     (snd (fst (read_one_bufr_tc sample_extern [] missing_latitude_message (Some 1)))) =
   [([Fin 10, Fin 12, Fin 14], [Fin 30, Fin 32, Fin 34], [Fin 1000, Fin 990, Fin 980]),
    ([Fin 11, NaN, Fin 15], [Fin 31, Fin 33, Fin 35], [Fin 1001, Fin 991, Fin 981])]"
  by code_simp

text \<open>
  C3, as the code has it. In a track of \<^verbatim>\<open>_subset_to_track\<close> there is one time step value
  per retained time; after the first, it is the difference (in hours) between the time and
  the retained time before it; the first is the difference between the first retained time
  and the issuance time, that is the lead time of the first retained step, which is zero
  only when the analysis step is retained.
\<close>

theorem subset_to_track_time_step:
  assumes "subset_to_track ext m index provider timestamp_origin nm idn = (Inr (Some trk), l)"
  shows "length (time_step trk) = length (track.time trk)
       \<and> (\<forall>k < length (track.time trk).
             time_step trk ! k * HOUR_US =
               track.time trk ! k - (if k = 0 then track.run_datetime trk else track.time trk ! (k - 1)))"
proof -
  from subset_to_track_Some [OF assms] obtain ts where
    t: "track.time trk = map (\<lambda>h. timestamp_origin + h * HOUR_US) ts"
    and s: "time_step trk = map (\<lambda>(a, b). a - b) (zip ts (shift1 0 ts))"
    and r: "track.run_datetime trk = timestamp_origin" by blast
  have len: "length (shift1 (0::int) ts) = length ts" by (simp add: shift1_def)
  have "time_step trk ! k * HOUR_US =
          track.time trk ! k - (if k = 0 then track.run_datetime trk else track.time trk ! (k - 1))"
    if "k < length ts" for k
    using that by (simp add: t s r len shift1_nth algebra_simps)
  then show ?thesis by (simp add: t s len)
qed

theorem subset_to_track_time_step_witness:
  "subset_to_track sample_extern gap_bundle 0 ''ECMWF'' 1704067200000000 ''ALPHA'' 2024010100 =
     (Inr (Some gap_track), [])
   \<and> time_step gap_track = [0, 6, 12]
   \<and> time_step gap_track ! 0 * HOUR_US = track.time gap_track ! 0 - track.run_datetime gap_track
   \<and> time_step gap_track ! 2 * HOUR_US = track.time gap_track ! 2 - track.time gap_track ! 1"
proof -
  have h: "subset_to_track sample_extern gap_bundle 0 ''ECMWF'' 1704067200000000 ''ALPHA'' 2024010100 =
     (Inr (Some gap_track), [])" by code_simp
  have l: "length (track.time gap_track) = 3" by code_simp
  have s: "time_step gap_track = [0, 6, 12]" by code_simp
  from subset_to_track_time_step [OF h] l
  have "time_step gap_track ! 0 * HOUR_US = track.time gap_track ! 0 - track.run_datetime gap_track"
    and "time_step gap_track ! 2 * HOUR_US = track.time gap_track ! 2 - track.time gap_track ! 1"
    by simp_all
  with h s show ?thesis by simp
qed

text \<open>
  C3 as stated fails: when the wind of the analysis step is undefined, the retained lead
  times are 6, 12 and 18 h and the first time step value is 6, not 0.
\<close>

theorem subset_to_track_time_step_counterexample:
  "(case fst (subset_to_track sample_extern late_bundle 0 ''ECMWF'' 1704067200000000 ''ALPHA''
       2024010100) of
      Inr (Some t) \<Rightarrow> time_step t | _ \<Rightarrow> []) = [6, 6, 6]"
  by code_simp




section \<open>The environmental pressure of the alternate ingester\<close>

text \<open>
  C4 at a table of one row, a North Atlantic storm with a minimum pressure of 990 hPa and
  no last closed isobar: \<^verbatim>\<open>_cxml_to_df\<close> fills the last closed isobar with the default of
  the basin, 1010 hPa, and the track's environmental pressure is the minimum pressure, 990.
\<close>

theorem read_cxml_environmental_pressure:
  "map cxml_row.lastClosedIsobar (cxml_to_df sample_extern None [sample_row]) = [CFloat (Fin 1010)]
   \<and> fst (read_cxml sample_extern [sample_row]) \<noteq> Inl IndexError
   \<and> (case fst (read_cxml sample_extern [sample_row]) of
         Inr ts \<Rightarrow> map cxml_track.environmental_pressure ts | Inl e \<Rightarrow> []) = [[Fin 990]]"
  by code_simp

end
